theory Spec2Isabelle
  imports Complex_Main "HOL-Library.Sublist"
begin

section \<open>Python values, exceptions and process outcomes\<close>

text \<open>
  Every script exchanges JSON with its caller. A parsed JSON document is a Python value:
  \<open>None\<close>, a bool, an int (unbounded), a float, a str, a list or a dict. A dict is an
  association list in insertion order with distinct keys; strings are lists of 8-bit
  characters. Floats are idealised as exact rationals: rounding, \<open>nan\<close> and \<open>inf\<close> are
  outside the model.
\<close>

datatype json =
    JNull
  | JBool bool
  | JInt int
  | JFloat rat
  | JStr string
  | JArr "json list"
  | JObj "(string \<times> json) list"

text \<open>
  The exceptions the scripts can meet. \<open>OtherError tn msg\<close> is any other subclass of
  \<open>Exception\<close> (raised by a third-party library, or a \<open>NameError\<close>), with its type name
  and message.
\<close>

datatype exn =
    JSONDecodeError string
  | ValueError string
  | TypeError string
  | AttributeError string
  | KeyError string
  | IndexError string
  | FileNotFoundError string
  | OtherError string string

definition quote :: "string \<Rightarrow> string" where
  "quote s = CHR 0x27 # s @ [CHR 0x27]"

text \<open>\<open>type(e).__name__\<close> and \<open>str(e)\<close>; the string of a \<open>KeyError\<close> is the repr of the key.\<close>

fun exn_type :: "exn \<Rightarrow> string" where
  "exn_type (JSONDecodeError m) = ''JSONDecodeError''"
| "exn_type (ValueError m) = ''ValueError''"
| "exn_type (TypeError m) = ''TypeError''"
| "exn_type (AttributeError m) = ''AttributeError''"
| "exn_type (KeyError k) = ''KeyError''"
| "exn_type (IndexError m) = ''IndexError''"
| "exn_type (FileNotFoundError m) = ''FileNotFoundError''"
| "exn_type (OtherError tn m) = tn"

fun exn_str :: "exn \<Rightarrow> string" where
  "exn_str (JSONDecodeError m) = m"
| "exn_str (ValueError m) = m"
| "exn_str (TypeError m) = m"
| "exn_str (AttributeError m) = m"
| "exn_str (KeyError k) = quote k"
| "exn_str (IndexError m) = m"
| "exn_str (FileNotFoundError m) = m"
| "exn_str (OtherError tn m) = m"

fun type_name :: "json \<Rightarrow> string" where
  "type_name JNull = ''NoneType''"
| "type_name (JBool b) = ''bool''"
| "type_name (JInt i) = ''int''"
| "type_name (JFloat r) = ''float''"
| "type_name (JStr s) = ''str''"
| "type_name (JArr xs) = ''list''"
| "type_name (JObj kvs) = ''dict''"

text \<open>Truthiness, as \<open>if x\<close> and \<open>not x\<close> test it.\<close>

fun truthy :: "json \<Rightarrow> bool" where
  "truthy JNull = False"
| "truthy (JBool b) = b"
| "truthy (JInt i) = (i \<noteq> 0)"
| "truthy (JFloat r) = (r \<noteq> 0)"
| "truthy (JStr s) = (s \<noteq> [])"
| "truthy (JArr xs) = (xs \<noteq> [])"
| "truthy (JObj kvs) = (kvs \<noteq> [])"

text \<open>\<open>w in t\<close> on two strings: \<open>w\<close> occurs in \<open>t\<close> as a contiguous run.\<close>

fun str_contains :: "string \<Rightarrow> string \<Rightarrow> bool" where
  "str_contains w [] = (w = [])"
| "str_contains w (c # cs) = (prefix w (c # cs) \<or> str_contains w cs)"

text \<open>\<open>d.get(k, default)\<close>: only a dict has the method.\<close>

fun py_get :: "json \<Rightarrow> string \<Rightarrow> json \<Rightarrow> exn + json" where
  "py_get (JObj kvs) k d = Inr (case map_of kvs k of None \<Rightarrow> d | Some v \<Rightarrow> v)"
| "py_get v k d =
     Inl (AttributeError (quote (type_name v) @ '' object has no attribute '' @ quote ''get''))"

definition lookup :: "string \<Rightarrow> json \<Rightarrow> json option" where
  "lookup k j = (case j of JObj kvs \<Rightarrow> map_of kvs k | _ \<Rightarrow> None)"

text \<open>\<open>k in x\<close> for a string \<open>k\<close>: a key of a dict, an element of a list, a substring of a str.\<close>

fun py_contains :: "string \<Rightarrow> json \<Rightarrow> exn + bool" where
  "py_contains k (JObj kvs) = Inr (k \<in> fst ` set kvs)"
| "py_contains k (JArr xs) = Inr (JStr k \<in> set xs)"
| "py_contains k (JStr s) = Inr (str_contains k s)"
| "py_contains k v =
     Inl (TypeError (''argument of type '' @ quote (type_name v) @ '' is not iterable''))"

text \<open>\<open>x[k]\<close> for a string \<open>k\<close>.\<close>

fun py_getitem :: "json \<Rightarrow> string \<Rightarrow> exn + json" where
  "py_getitem (JObj kvs) k = (case map_of kvs k of None \<Rightarrow> Inl (KeyError k) | Some v \<Rightarrow> Inr v)"
| "py_getitem (JArr xs) k = Inl (TypeError ''list indices must be integers or slices, not str'')"
| "py_getitem (JStr s) k = Inl (TypeError ''string indices must be integers'')"
| "py_getitem v k = Inl (TypeError (quote (type_name v) @ '' object is not subscriptable''))"

text \<open>The characters \<open>str.strip()\<close> removes, within ASCII.\<close>

definition is_space :: "char \<Rightarrow> bool" where
  "is_space c = (c \<in> set [CHR 0x09, CHR 0x0A, CHR 0x0B, CHR 0x0C, CHR 0x0D,
                           CHR 0x1C, CHR 0x1D, CHR 0x1E, CHR 0x1F, CHR 0x20])"

definition str_strip :: "string \<Rightarrow> string" where
  "str_strip s = rev (dropWhile is_space (rev (dropWhile is_space s)))"

definition no_attribute :: "json \<Rightarrow> string \<Rightarrow> exn" where
  "no_attribute v a =
     AttributeError (quote (type_name v) @ '' object has no attribute '' @ quote a)"

text \<open>Sequencing of steps that may raise: the first exception ends the block.\<close>

definition bind_exn :: "exn + 'a \<Rightarrow> ('a \<Rightarrow> exn + 'b) \<Rightarrow> exn + 'b" where
  "bind_exn m f = (case m of Inl e \<Rightarrow> Inl e | Inr x \<Rightarrow> f x)"

text \<open>\<open>d[k] = v\<close> on a dict keeps the position of a key that is there and appends a new one.\<close>

fun dict_set :: "(string \<times> json) list \<Rightarrow> string \<Rightarrow> json \<Rightarrow> (string \<times> json) list" where
  "dict_set [] k v = [(k, v)]"
| "dict_set ((k', v') # kvs) k v =
     (if k' = k then (k, v) # kvs else (k', v') # dict_set kvs k v)"

fun py_setitem :: "json \<Rightarrow> string \<Rightarrow> json \<Rightarrow> exn + json" where
  "py_setitem (JObj kvs) k v = Inr (JObj (dict_set kvs k v))"
| "py_setitem (JArr xs) k v = Inl (TypeError ''list indices must be integers or slices, not str'')"
| "py_setitem x k v =
     Inl (TypeError (quote (type_name x) @ '' object does not support item assignment''))"

text \<open>
  What a run of a script leaves behind: the JSON documents printed on stdout, the exit
  code, and the exception that escaped \<open>main\<close> when one did (the interpreter then prints a
  traceback on stderr and exits with code 1).
\<close>

record run =
  stdout :: "json list"
  exit_code :: nat
  uncaught :: "exn option"

definition printed :: "json \<Rightarrow> nat \<Rightarrow> run" where
  "printed j code = \<lparr>stdout = [j], exit_code = code, uncaught = None\<rparr>"

definition crashed :: "exn \<Rightarrow> run" where
  "crashed e = \<lparr>stdout = [], exit_code = 1, uncaught = Some e\<rparr>"

definition has_error_key :: "json \<Rightarrow> bool" where
  "has_error_key j = (case j of JObj kvs \<Rightarrow> ''error'' \<in> fst ` set kvs | _ \<Rightarrow> False)"

text \<open>
  \<open>json.loads\<close> belongs to the standard library and is a parameter of every script: on a
  string it returns the parsed value (\<open>Inr\<close>) or raises \<open>JSONDecodeError\<close> with a message
  (\<open>Inl\<close>). \<open>repr\<close> is the interpreter's printing of a value; \<open>str\<close> of a str is the str.
\<close>

type_synonym loads = "string \<Rightarrow> string + json"

fun py_str :: "(json \<Rightarrow> string) \<Rightarrow> json \<Rightarrow> string" where
  "py_str repr (JStr s) = s"
| "py_str repr v = repr v"


section \<open>chapter-11/01-simple-shell/hello.py\<close>

text \<open>
  \<open>main\<close> guards only \<open>json.JSONDecodeError\<close>: an \<open>AttributeError\<close> of \<open>input_data.get\<close>
  on a value that is not a dict leaves \<open>main\<close>.
\<close>

definition hello_main :: "loads \<Rightarrow> (json \<Rightarrow> string) \<Rightarrow> string list \<Rightarrow> run" where
  "hello_main loads repr argv =
     (if length argv < 2 then printed (JObj [(''error'', JStr ''No data provided'')]) 1
      else case loads (argv ! 1) of
             Inl msg \<Rightarrow> printed (JObj [(''error'', JStr (''Invalid JSON: '' @ msg))]) 1
           | Inr input_data \<Rightarrow>
               (case py_get input_data ''name'' (JStr ''World'') of
                  Inl e \<Rightarrow> crashed e
                | Inr name \<Rightarrow>
                    printed (JObj [(''greeting'', JStr (''Hello, '' @ py_str repr name @ ''!'')),
                                   (''processed_by'', JStr ''Python 3''),
                                   (''input_received'', input_data)]) 0))"

section \<open>chapter-11/quick_sentiment.py\<close>

definition positive_words :: "string list" where
  "positive_words = [''amazing'', ''excellent'', ''great'', ''love'', ''recommend'',
                     ''fantastic'', ''wonderful'', ''perfect'', ''best'', ''awesome'']"

definition negative_words :: "string list" where
  "negative_words = [''terrible'', ''awful'', ''hate'', ''worst'', ''disappointing'',
                     ''horrible'', ''bad'', ''poor'', ''waste'', ''useless'']"

text \<open>\<open>str.lower()\<close> on ASCII: the letters \<open>A\<close> to \<open>Z\<close> move to \<open>a\<close> to \<open>z\<close>.\<close>

definition lower_char :: "char \<Rightarrow> char" where
  "lower_char c =
     (if 65 \<le> (of_char c :: nat) \<and> (of_char c :: nat) \<le> 90
      then char_of ((of_char c :: nat) + 32) else c)"

definition str_lower :: "string \<Rightarrow> string" where
  "str_lower s = map lower_char s"

text \<open>\<open>sum(1 for word in words if word in text_lower)\<close>\<close>

definition count_words :: "string list \<Rightarrow> string \<Rightarrow> nat" where
  "count_words ws text_lower =
     sum_list (map (\<lambda>word. 1) (filter (\<lambda>word. str_contains word text_lower) ws))"

definition analyze_sentiment :: "string \<Rightarrow> json" where
  "analyze_sentiment text =
     (let text_lower = str_lower text;
          positive_count = count_words positive_words text_lower;
          negative_count = count_words negative_words text_lower
      in if positive_count > negative_count then
           JObj [(''sentiment'', JStr ''positive''),
                 (''confidence'',
                  JFloat (min (85 / 100 + of_nat positive_count * (5 / 100)) (99 / 100)))]
         else if negative_count > positive_count then
           JObj [(''sentiment'', JStr ''negative''),
                 (''confidence'',
                  JFloat (min (85 / 100 + of_nat negative_count * (5 / 100)) (99 / 100)))]
         else
           JObj [(''sentiment'', JStr ''neutral''), (''confidence'', JFloat (60 / 100))])"



section \<open>chapter-11/02-data-passing/process.py\<close>














definition error_result :: "exn \<Rightarrow> json" where
  "error_result e = JObj [(''error'', JStr (exn_str e)), (''type'', JStr (exn_type e))]"


section \<open>The scikit-learn model\<close>

text \<open>
  The trained classifier and vectorizer are third-party objects, loaded from disk. Their
  methods are parameters: each returns a value or raises. \<open>transform\<close> maps a list of
  texts to a feature matrix, \<open>predict\<close> gives one label per row and \<open>predict_proba\<close>
  one row of class probabilities per row. Every call a script makes is recorded, in order.
\<close>

record 'v sk_model =
  transform :: "json list \<Rightarrow> exn + 'v"
  predict :: "'v \<Rightarrow> exn + string list"
  predict_proba :: "'v \<Rightarrow> exn + rat list list"
  classes :: "string list"

datatype call = LoadModel | Transform "json list" | Predict | PredictProba

type_synonym 'a traced = "(exn + 'a) \<times> call list"

definition bind_tr :: "'a traced \<Rightarrow> ('a \<Rightarrow> 'b traced) \<Rightarrow> 'b traced" where
  "bind_tr m f =
     (case m of
        (Inl e, cs) \<Rightarrow> (Inl e, cs)
      | (Inr x, cs) \<Rightarrow> (case f x of (r, cs') \<Rightarrow> (r, cs @ cs')))"

definition calling :: "call \<Rightarrow> exn + 'a \<Rightarrow> 'a traced" where
  "calling c r = (r, [c])"

definition no_call :: "exn + 'a \<Rightarrow> 'a traced" where
  "no_call r = (r, [])"

text \<open>\<open>a[0]\<close> on an array and \<open>row.max()\<close> on a row of probabilities.\<close>

definition index0 :: "'a list \<Rightarrow> exn + 'a" where
  "index0 xs =
     (case xs of
        [] \<Rightarrow> Inl (IndexError ''index 0 is out of bounds for axis 0 with size 0'')
      | x # _ \<Rightarrow> Inr x)"

definition row_max :: "rat list \<Rightarrow> exn + rat" where
  "row_max row =
     (case row of
        [] \<Rightarrow> Inl (ValueError
                 ''zero-size array to reduction operation maximum which has no identity'')
      | x # xs \<Rightarrow> Inr (fold max xs x))"

text \<open>\<open>{cls: float(prob) for cls, prob in zip(classes, probabilities)}\<close>\<close>

definition confidence_scores :: "string list \<Rightarrow> rat list \<Rightarrow> json" where
  "confidence_scores cls probs =
     JObj (fold (\<lambda>(c, p) d. dict_set d c (JFloat p)) (zip cls probs) [])"

section \<open>chapter-11/03-sentiment-analysis/predict.py\<close>






section \<open>chapter-11/04-rest-api-example/flask_server.py\<close>

text \<open>
  A request is what \<open>request.get_json()\<close> makes of it: the parsed body, \<open>None\<close> (here
  \<open>JNull\<close>), or an exception of the framework for a body it cannot read. A response
  is a status and a JSON body. The model is the one loaded at start-up.
\<close>

record response =
  status :: nat
  body :: json

definition jsonify :: "json \<Rightarrow> nat \<Rightarrow> response" where
  "jsonify j code = \<lparr>status = code, body = j\<rparr>"

definition flask_predict_body :: "'v sk_model \<Rightarrow> exn + json \<Rightarrow> response traced" where
  "flask_predict_body m get_json =
     bind_tr (no_call get_json) (\<lambda>data.
     bind_tr (no_call (if \<not> truthy data then Inr True
                       else bind_exn (py_contains ''text'' data) (\<lambda>b. Inr (\<not> b))))
       (\<lambda>missing.
     if missing
     then no_call (Inr (jsonify (JObj [(''error'', JStr ''Missing \"text\" field'')]) 400))
     else
       bind_tr (no_call (py_getitem data ''text'')) (\<lambda>text.
       bind_tr (no_call (if \<not> truthy text then Inr True
                         else case text of
                                JStr t \<Rightarrow> Inr (str_strip t = [])
                              | _ \<Rightarrow> Inl (no_attribute text ''strip'')))
         (\<lambda>empty.
       if empty
       then no_call (Inr (jsonify (JObj [(''error'', JStr ''Text cannot be empty'')]) 400))
       else
         bind_tr (calling (Transform [text]) (transform m [text])) (\<lambda>text_vec.
         bind_tr (calling Predict (predict m text_vec)) (\<lambda>predictions.
         bind_tr (no_call (index0 predictions)) (\<lambda>prediction.
         bind_tr (calling PredictProba (predict_proba m text_vec)) (\<lambda>probas.
         bind_tr (no_call (index0 probas)) (\<lambda>probabilities.
         bind_tr (no_call (row_max probabilities)) (\<lambda>confidence.
           no_call (Inr (jsonify
             (JObj [(''text'', text),
                    (''sentiment'', JStr prediction),
                    (''confidence'', JFloat confidence),
                    (''all_scores'', confidence_scores (classes m) probabilities)])
             200))))))))))))"

text \<open>The handler of every exception answers 500 with the message.\<close>

definition internal_error :: "response traced \<Rightarrow> response \<times> call list" where
  "internal_error r =
     (case r of
        (Inr resp, cs) \<Rightarrow> (resp, cs)
      | (Inl e, cs) \<Rightarrow> (jsonify (JObj [(''error'', JStr (exn_str e))]) 500, cs))"

definition flask_predict :: "'v sk_model \<Rightarrow> exn + json \<Rightarrow> response \<times> call list" where
  "flask_predict m get_json = internal_error (flask_predict_body m get_json)"

text \<open>
  The loop over \<open>zip(texts, predictions, probabilities)\<close> stops with the shortest of the
  three; \<open>probs.max()\<close> may raise in any round.
\<close>

fun batch_results :: "json list \<Rightarrow> string list \<Rightarrow> rat list list \<Rightarrow> exn + json list" where
  "batch_results (text # texts) (pred # preds) (probs # probas) =
     (case row_max probs of
        Inl e \<Rightarrow> Inl e
      | Inr c \<Rightarrow>
          (case batch_results texts preds probas of
             Inl e \<Rightarrow> Inl e
           | Inr rs \<Rightarrow> Inr (JObj [(''text'', text),
                                  (''sentiment'', JStr pred),
                                  (''confidence'', JFloat c)] # rs)))"
| "batch_results texts preds probas = Inr []"

definition flask_predict_batch_body :: "'v sk_model \<Rightarrow> exn + json \<Rightarrow> response traced" where
  "flask_predict_batch_body m get_json =
     bind_tr (no_call get_json) (\<lambda>data.
     bind_tr (no_call (if \<not> truthy data then Inr True
                       else bind_exn (py_contains ''texts'' data) (\<lambda>b. Inr (\<not> b))))
       (\<lambda>missing.
     if missing
     then no_call (Inr (jsonify (JObj [(''error'', JStr ''Missing \"texts\" array'')]) 400))
     else
       bind_tr (no_call (py_getitem data ''texts'')) (\<lambda>texts.
       case texts of
         JArr ts \<Rightarrow>
           bind_tr (calling (Transform ts) (transform m ts)) (\<lambda>texts_vec.
           bind_tr (calling Predict (predict m texts_vec)) (\<lambda>predictions.
           bind_tr (calling PredictProba (predict_proba m texts_vec)) (\<lambda>probabilities.
           bind_tr (no_call (batch_results ts predictions probabilities)) (\<lambda>results.
             no_call (Inr (jsonify (JObj [(''predictions'', JArr results)]) 200))))))
       | _ \<Rightarrow>
           no_call (Inr (jsonify (JObj [(''error'', JStr ''\"texts\" must be an array'')]) 400)))))"

definition flask_predict_batch :: "'v sk_model \<Rightarrow> exn + json \<Rightarrow> response \<times> call list" where
  "flask_predict_batch m get_json = internal_error (flask_predict_batch_body m get_json)"

section \<open>chapter-11/05-production-patterns/worker.py\<close>

text \<open>
  The module-level \<open>try\<close> leaves the two globals in one of three states: unbound (the
  import of joblib failed before they were assigned), \<open>None\<close> (no model file), or the
  loaded model and vectorizer.
\<close>

datatype 'v sentiment_globals = Unbound | NotLoaded | Loaded "'v sk_model"

definition process_sentiment_analysis :: "'v sentiment_globals \<Rightarrow> json \<Rightarrow> exn + json" where
  "process_sentiment_analysis g data =
     bind_exn (py_get data ''text'' (JStr [])) (\<lambda>text.
     case g of
       Unbound \<Rightarrow> Inl (OtherError ''NameError'' ''name 'SENTIMENT_MODEL' is not defined'')
     | Loaded m \<Rightarrow>
         bind_exn (transform m [text]) (\<lambda>text_vec.
         bind_exn (predict m text_vec) (\<lambda>predictions.
         bind_exn (index0 predictions) (\<lambda>prediction.
         bind_exn (predict_proba m text_vec) (\<lambda>probas.
         bind_exn (index0 probas) (\<lambda>probabilities.
         bind_exn (row_max probabilities) (\<lambda>confidence.
           Inr (JObj [(''text'', text),
                      (''sentiment'', JStr prediction),
                      (''confidence'', JFloat confidence)])))))))
     | NotLoaded \<Rightarrow>
         Inr (JObj [(''text'', text),
                    (''sentiment'', JStr ''positive''),
                    (''confidence'', JFloat (85 / 100)),
                    (''note'', JStr ''Simulated (model not loaded)'')]))"

definition process_task ::
  "(json \<Rightarrow> string) \<Rightarrow> 'v sentiment_globals \<Rightarrow> json \<Rightarrow> exn + json" where
  "process_task repr g task =
     bind_exn (py_getitem task ''type'') (\<lambda>task_type.
     bind_exn (py_getitem task ''data'') (\<lambda>data.
     if task_type = JStr ''sentiment_analysis'' then process_sentiment_analysis g data
     else if task_type = JStr ''image_classification''
     then Inr (JObj [(''label'', JStr ''cat''), (''confidence'', JFloat (92 / 100))])
     else Inl (ValueError (''Unknown task type: '' @ py_str repr task_type))))"

text \<open>
  The Redis commands on the queue and the store. The worker's locals \<open>task\<close> and
  \<open>task_id\<close> live across the rounds of the \<open>while\<close> loop; \<open>None\<close> is a name not bound yet.
  \<open>stopped\<close> holds an exception that left the loop. Redis itself is taken to answer
  every command.
\<close>

datatype redis_cmd =
    BRPOP string nat
  | SETEX string nat json
  | LPUSH string json
  | RPUSH string json

record worker_state =
  task_var :: "json option"
  task_id_var :: "json option"
  issued :: "redis_cmd list"
  stopped :: "exn option"

definition initial_worker :: worker_state where
  "initial_worker = \<lparr>task_var = None, task_id_var = None, issued = [], stopped = None\<rparr>"

type_synonym 'a wm = "worker_state \<Rightarrow> (exn + 'a) \<times> worker_state"

definition bind_w :: "'a wm \<Rightarrow> ('a \<Rightarrow> 'b wm) \<Rightarrow> 'b wm" where
  "bind_w m f = (\<lambda>s. case m s of (Inl e, s') \<Rightarrow> (Inl e, s') | (Inr x, s') \<Rightarrow> f x s')"

definition eval_w :: "exn + 'a \<Rightarrow> 'a wm" where
  "eval_w r = (\<lambda>s. (r, s))"

definition update_w :: "(worker_state \<Rightarrow> worker_state) \<Rightarrow> unit wm" where
  "update_w f = (\<lambda>s. (Inr (), f s))"

definition task_key :: "(json \<Rightarrow> string) \<Rightarrow> json \<Rightarrow> string" where
  "task_key repr tid = ''task:'' @ py_str repr tid"

definition result_key :: "(json \<Rightarrow> string) \<Rightarrow> json \<Rightarrow> string" where
  "result_key repr tid = ''result:'' @ py_str repr tid"

definition setex :: "string \<Rightarrow> nat \<Rightarrow> json \<Rightarrow> unit wm" where
  "setex key ttl v = update_w (\<lambda>s. s\<lparr>issued := issued s @ [SETEX key ttl v]\<rparr>)"

text \<open>\<open>task[k] = v\<close>: the dict that \<open>task\<close> names is changed in place.\<close>

definition set_task_item :: "json \<Rightarrow> string \<Rightarrow> json \<Rightarrow> json wm" where
  "set_task_item task k v =
     bind_w (eval_w (py_setitem task k v)) (\<lambda>task'.
     bind_w (update_w (\<lambda>s. s\<lparr>task_var := Some task'\<rparr>)) (\<lambda>_.
     eval_w (Inr task')))"

text \<open>
  The \<open>try\<close> block of one round that popped \<open>payload\<close>; \<open>t1\<close> and \<open>t2\<close> are what the two
  calls of \<open>int(time.time())\<close> return.
\<close>

definition worker_try ::
  "loads \<Rightarrow> (json \<Rightarrow> string) \<Rightarrow> 'v sentiment_globals \<Rightarrow> string \<Rightarrow> int \<Rightarrow> int \<Rightarrow> unit wm" where
  "worker_try loads repr g payload t1 t2 =
     bind_w (eval_w (case loads payload of
                       Inl msg \<Rightarrow> Inl (JSONDecodeError msg) | Inr v \<Rightarrow> Inr v)) (\<lambda>task0.
     bind_w (update_w (\<lambda>s. s\<lparr>task_var := Some task0\<rparr>)) (\<lambda>_.
     bind_w (eval_w (py_getitem task0 ''id'')) (\<lambda>task_id.
     bind_w (update_w (\<lambda>s. s\<lparr>task_id_var := Some task_id\<rparr>)) (\<lambda>_.
     bind_w (eval_w (py_getitem task0 ''type'')) (\<lambda>_.
     bind_w (set_task_item task0 ''status'' (JStr ''processing'')) (\<lambda>task1.
     bind_w (set_task_item task1 ''started_at'' (JInt t1)) (\<lambda>task2.
     bind_w (setex (task_key repr task_id) 3600 task2) (\<lambda>_.
     bind_w (eval_w (process_task repr g task2)) (\<lambda>result.
     bind_w (setex (result_key repr task_id) 3600 result) (\<lambda>_.
     bind_w (set_task_item task2 ''status'' (JStr ''completed'')) (\<lambda>task3.
     bind_w (set_task_item task3 ''completed_at'' (JInt t2)) (\<lambda>task4.
     setex (task_key repr task_id) 3600 task4))))))))))))"

text \<open>
  The handler of \<open>Exception\<close>. \<open>'task_id' in locals()\<close> asks whether the name is bound,
  in this round or an earlier one. An exception raised in the handler leaves the loop.
\<close>

definition worker_except :: "(json \<Rightarrow> string) \<Rightarrow> exn \<Rightarrow> worker_state \<Rightarrow> worker_state" where
  "worker_except repr e s =
     (case task_id_var s of
        None \<Rightarrow> s
      | Some task_id \<Rightarrow>
          (case task_var s of
             None \<Rightarrow> s\<lparr>stopped := Some (OtherError ''UnboundLocalError'' ''task'')\<rparr>
           | Some task \<Rightarrow>
               (case bind_w (set_task_item task ''status'' (JStr ''failed'')) (\<lambda>task1.
                     bind_w (set_task_item task1 ''error'' (JStr (exn_str e))) (\<lambda>task2.
                     setex (task_key repr task_id) 3600 task2)) s of
                  (Inl e', s') \<Rightarrow> s'\<lparr>stopped := Some e'\<rparr>
                | (Inr _, s') \<Rightarrow> s')))"

text \<open>One round of the loop: \<open>popped\<close> is what \<open>brpop\<close> returned, \<open>None\<close> after the
  timeout.\<close>

definition worker_round ::
  "loads \<Rightarrow> (json \<Rightarrow> string) \<Rightarrow> 'v sentiment_globals \<Rightarrow> string option \<times> int \<times> int
     \<Rightarrow> worker_state \<Rightarrow> worker_state" where
  "worker_round loads repr g ev s =
     (case ev of (popped, t1, t2) \<Rightarrow>
        let s0 = s\<lparr>issued := issued s @ [BRPOP ''ml_tasks'' 1]\<rparr>
        in case popped of
             None \<Rightarrow> s0
           | Some payload \<Rightarrow>
               (case worker_try loads repr g payload t1 t2 s0 of
                  (Inr _, s') \<Rightarrow> s'
                | (Inl e, s') \<Rightarrow> worker_except repr e s'))"

text \<open>The loop over the first rounds, as many as there are answers of \<open>brpop\<close> given.\<close>

fun worker_loop ::
  "loads \<Rightarrow> (json \<Rightarrow> string) \<Rightarrow> 'v sentiment_globals \<Rightarrow> (string option \<times> int \<times> int) list
     \<Rightarrow> worker_state \<Rightarrow> worker_state" where
  "worker_loop loads repr g [] s = s"
| "worker_loop loads repr g (ev # evs) s =
     (let s' = worker_round loads repr g ev s
      in case stopped s' of None \<Rightarrow> worker_loop loads repr g evs s' | Some e \<Rightarrow> s')"

text \<open>The writes to the store among the commands issued: key, expiry and value.\<close>

fun writes :: "redis_cmd list \<Rightarrow> (string \<times> nat \<times> json) list" where
  "writes [] = []"
| "writes (SETEX k ttl v # cs) = (k, ttl, v) # writes cs"
| "writes (c # cs) = writes cs"

section \<open>chapter-18/detect_opencv.py\<close>

text \<open>
  OpenCV is third-party: reading the image (\<open>None\<close> when it cannot be decoded), the
  conversion to grayscale, loading the cascade (the value is what \<open>empty()\<close> says of it)
  and the detector are parameters, each of which may raise. \<open>float\<close> and \<open>int\<close> parse
  the optional arguments.
\<close>

record ('img, 'gray) cv2 =
  imread :: "string \<Rightarrow> exn + 'img option"
  cvtColor :: "'img \<Rightarrow> exn + 'gray"
  cascade_empty :: "exn + bool"
  detectMultiScale :: "'gray \<Rightarrow> rat \<Rightarrow> int \<Rightarrow> exn + (int \<times> int \<times> int \<times> int) list"

definition detection :: "int \<times> int \<times> int \<times> int \<Rightarrow> json" where
  "detection f =
     (case f of (x, y, w, h) \<Rightarrow>
        JObj [(''class'', JStr ''face''),
              (''confidence'', JFloat (85 / 100)),
              (''bbox'', JObj [(''x'', JInt x), (''y'', JInt y),
                               (''width'', JInt w), (''height'', JInt h)])])"

definition detect_faces_body ::
  "('img, 'gray) cv2 \<Rightarrow> string \<Rightarrow> rat \<Rightarrow> int \<Rightarrow> exn + json" where
  "detect_faces_body cv image_path scale_factor min_neighbors =
     bind_exn (imread cv image_path) (\<lambda>image.
     case image of
       None \<Rightarrow> Inr (JObj [(''success'', JBool False),
                          (''error'', JStr (''Failed to load image: '' @ image_path))])
     | Some img \<Rightarrow>
         bind_exn (cvtColor cv img) (\<lambda>gray.
         bind_exn (cascade_empty cv) (\<lambda>empty.
         if empty
         then Inr (JObj [(''success'', JBool False),
                         (''error'', JStr ''Failed to load Haar Cascade classifier'')])
         else
           bind_exn (detectMultiScale cv gray scale_factor min_neighbors) (\<lambda>faces.
           let detections = map detection faces
           in Inr (JObj [(''success'', JBool True),
                         (''detections'', JArr detections),
                         (''count'', JInt (int (length detections))),
                         (''image_path'', JStr image_path),
                         (''method'', JStr ''OpenCV Haar Cascades'')])))))"

definition detect_faces :: "('img, 'gray) cv2 \<Rightarrow> string \<Rightarrow> rat \<Rightarrow> int \<Rightarrow> json" where
  "detect_faces cv image_path scale_factor min_neighbors =
     (case detect_faces_body cv image_path scale_factor min_neighbors of
        Inr result \<Rightarrow> result
      | Inl e \<Rightarrow> JObj [(''success'', JBool False), (''error'', JStr (exn_str e))])"

text \<open>The \<open>__main__\<close> block has no \<open>try\<close>: a \<open>ValueError\<close> of \<open>float\<close> or \<open>int\<close> leaves it.\<close>

definition detect_opencv_main ::
  "('img, 'gray) cv2 \<Rightarrow> (string \<Rightarrow> rat option) \<Rightarrow> (string \<Rightarrow> int option) \<Rightarrow> string list \<Rightarrow> run" where
  "detect_opencv_main cv parse_float parse_int argv =
     (if length argv < 2
      then printed (JObj [(''success'', JBool False),
                          (''error'', JStr ''Usage: python3 detect_opencv.py <image_path> [scale_factor] [min_neighbors]'')]) 1
      else
        case (if length argv > 2
              then (case parse_float (argv ! 2) of
                      None \<Rightarrow> Inl (ValueError (''could not convert string to float: '' @ quote (argv ! 2)))
                    | Some x \<Rightarrow> Inr x)
              else Inr (11 / 10)) of
          Inl e \<Rightarrow> crashed e
        | Inr scale_factor \<Rightarrow>
            (case (if length argv > 3
                   then (case parse_int (argv ! 3) of
                           None \<Rightarrow> Inl (ValueError (''invalid literal for int() with base 10: '' @ quote (argv ! 3)))
                         | Some n \<Rightarrow> Inr n)
                   else Inr 5) of
               Inl e \<Rightarrow> crashed e
             | Inr min_neighbors \<Rightarrow>
                 printed (detect_faces cv (argv ! 1) scale_factor min_neighbors) 0))"

section \<open>Vocabulary of the properties\<close>

text \<open>A run reports an error: it printed one JSON object with an \<open>error\<close> key, left
  with a non-zero exit code, and no exception escaped.\<close>

definition reports_error :: "run \<Rightarrow> bool" where
  "reports_error r =
     ((case stdout r of [j] \<Rightarrow> has_error_key j | _ \<Rightarrow> False) \<and>
      exit_code r \<noteq> 0 \<and> uncaught r = None)"

text \<open>The number of keywords of a list that occur in the lowercased text.\<close>

definition occurrences :: "string list \<Rightarrow> string \<Rightarrow> nat" where
  "occurrences ws text = length (filter (\<lambda>w. sublist w (str_lower text)) ws)"











text \<open>
  A run succeeds: it printed one JSON document without an \<open>error\<close> key, left with
  exit code 0, and no exception escaped.
\<close>

definition succeeded :: "run \<Rightarrow> bool" where
  "succeeded r =
     ((case stdout r of [j] \<Rightarrow> \<not> has_error_key j | _ \<Rightarrow> False) \<and>
      exit_code r = 0 \<and> uncaught r = None)"

text \<open>
  A handler body answers properly: it raises, or returns 200, or returns 400 with an
  \<open>error\<close> key.
\<close>

definition answers :: "exn + response \<Rightarrow> bool" where
  "answers r =
     (case r of
        Inl e \<Rightarrow> True
      | Inr resp \<Rightarrow> status resp = 200 \<or> (status resp = 400 \<and> has_error_key (body resp)))"

text \<open>
  The store convention: the worker only pops and writes, every write expires after 3600
  seconds and goes to a key that starts with \<open>task:\<close> or \<open>result:\<close>. A step keeps the
  convention when it leaves a log of commands that follows it in that state.
\<close>

definition follows_convention :: "redis_cmd \<Rightarrow> bool" where
  "follows_convention c =
     (case c of
        BRPOP q timeout \<Rightarrow> True
      | SETEX k ttl v \<Rightarrow> ttl = 3600 \<and> (prefix ''task:'' k \<or> prefix ''result:'' k)
      | _ \<Rightarrow> False)"

definition keeps :: "'a wm \<Rightarrow> bool" where
  "keeps m = (\<forall>s. list_all follows_convention (issued s) \<longrightarrow>
                  list_all follows_convention (issued (snd (m s))))"

section \<open>Concrete environments\<close>

text \<open>
  A stand-in for \<open>json.loads\<close> on a handful of documents (every other string is taken
  as malformed), for \<open>repr\<close>, and a fitted model that calls every text positive with
  probability 4/5.
\<close>

definition demo_loads :: loads where
  "demo_loads s =
     (case map_of
        [(''{}'', JObj []),
         (''[1]'', JArr [JInt 1]),
         (''5'', JInt 5),
         (''{\"text\": \"I love it\"}'', JObj [(''text'', JStr ''I love it'')]),
         (''[{\"id\": 7, \"purchases\": [{\"amount\": 600}]}]'',
            JArr [JObj [(''id'', JInt 7),
                        (''purchases'', JArr [JObj [(''amount'', JInt 600)]])]]),
         (''{\"id\": \"a1\", \"type\": \"image_classification\", \"data\": {}}'',
            JObj [(''id'', JStr ''a1''), (''type'', JStr ''image_classification''),
                  (''data'', JObj [])]),
         (''{\"type\": \"image_classification\", \"data\": {}}'',
            JObj [(''type'', JStr ''image_classification''), (''data'', JObj [])])] s of
        Some v \<Rightarrow> Inr v
      | None \<Rightarrow> Inl ''Expecting value: line 1 column 1 (char 0)'')"

definition demo_repr :: "json \<Rightarrow> string" where
  "demo_repr v =
     (case v of
        JNull \<Rightarrow> ''None''
      | JBool b \<Rightarrow> (if b then ''True'' else ''False'')
      | JInt i \<Rightarrow> (if i = 7 then ''7'' else ''<int>'')
      | _ \<Rightarrow> ''<repr>'')"




text \<open>An OpenCV that reads one image, \<open>group.jpg\<close>, and finds two faces in it; \<open>float\<close>
  and \<open>int\<close> on the two argument strings used below.\<close>

definition demo_cv :: "(unit, unit) cv2" where
  "demo_cv = \<lparr>imread = (\<lambda>p. Inr (if p = ''group.jpg'' then Some () else None)),
               cvtColor = (\<lambda>img. Inr ()),
               cascade_empty = Inr False,
               detectMultiScale = (\<lambda>gray sf mn. Inr [(10, 20, 64, 64), (120, 30, 48, 48)])\<rparr>"

definition demo_float :: "string \<Rightarrow> rat option" where
  "demo_float s = (if s = ''1.2'' then Some (12 / 10) else None)"

definition demo_int :: "string \<Rightarrow> int option" where
  "demo_int s = (if s = ''3'' then Some 3 else None)"


section \<open>Properties\<close>

subsection \<open>Helper facts\<close>

lemma str_contains_sublist: "str_contains w t = sublist w t"
  by (induction t) (auto simp: sublist_Cons_right)

lemma count_words_occurrences: "count_words ws (str_lower text) = occurrences ws text"
  by (induction ws) (auto simp: count_words_def occurrences_def str_contains_sublist)

lemma reports_error_printed [simp]:
  "reports_error (printed j c) = (has_error_key j \<and> c \<noteq> 0)"
  by (simp add: reports_error_def printed_def)

lemma has_error_key_error_result [simp]: "has_error_key (error_result e)"
  by (simp add: has_error_key_def error_result_def)

lemma has_error_key_Cons [simp]: "has_error_key (JObj ((''error'', v) # kvs))"
  by (simp add: has_error_key_def)

subsection \<open>Malformed JSON on the command line\<close>



subsection \<open>Keyword sentiment\<close>

text \<open>
  Claim C8. For every non-empty text, \<open>analyze_sentiment\<close> of quick_sentiment.py returns
  sentiment \<open>positive\<close> exactly when more of its positive keywords than of its negative
  keywords occur in the lowercased text, \<open>negative\<close> exactly when more negative than
  positive keywords occur, and \<open>neutral\<close> exactly when the two counts are equal. The
  confidence lies between 0.60 and 0.99; it is 0.60 for \<open>neutral\<close> and
  \<open>min(0.85 + 0.05 * count, 0.99)\<close> otherwise, \<open>count\<close> being the larger count.
\<close>

theorem analyze_sentiment_spec:
  "text \<noteq> [] \<Longrightarrow>
   (lookup ''sentiment'' (analyze_sentiment text) = Some (JStr ''positive'')
      \<longleftrightarrow> occurrences positive_words text > occurrences negative_words text) \<and>
   (lookup ''sentiment'' (analyze_sentiment text) = Some (JStr ''negative'')
      \<longleftrightarrow> occurrences negative_words text > occurrences positive_words text) \<and>
   (lookup ''sentiment'' (analyze_sentiment text) = Some (JStr ''neutral'')
      \<longleftrightarrow> occurrences positive_words text = occurrences negative_words text) \<and>
   (\<exists>c. lookup ''confidence'' (analyze_sentiment text) = Some (JFloat c) \<and>
      60 / 100 \<le> c \<and> c \<le> 99 / 100 \<and>
      c = (if occurrences positive_words text > occurrences negative_words text
           then min (85 / 100 + 5 / 100 * of_nat (occurrences positive_words text)) (99 / 100)
           else if occurrences negative_words text > occurrences positive_words text
           then min (85 / 100 + 5 / 100 * of_nat (occurrences negative_words text)) (99 / 100)
           else 60 / 100))"
  by (auto simp: analyze_sentiment_def Let_def lookup_def count_words_occurrences min_def)

theorem analyze_sentiment_spec_witness:
  "''I LOVE it, great!'' \<noteq> [] \<and>
   occurrences positive_words ''I LOVE it, great!'' = 2 \<and>
   occurrences negative_words ''I LOVE it, great!'' = 0 \<and>
   lookup ''sentiment'' (analyze_sentiment ''I LOVE it, great!'') = Some (JStr ''positive'') \<and>
   lookup ''confidence'' (analyze_sentiment ''I LOVE it, great!'') = Some (JFloat (95 / 100))"
proof -
  have p: "occurrences positive_words ''I LOVE it, great!'' = 2" by code_simp
  have n: "occurrences negative_words ''I LOVE it, great!'' = 0" by code_simp
  show ?thesis
    using analyze_sentiment_spec [of "''I LOVE it, great!''"] p n by auto
qed

subsection \<open>Customer segments\<close>









subsection \<open>Face detections\<close>

lemma detect_faces_success:
  assumes "lookup ''success'' (detect_faces cv image_path sf mn) = Some (JBool True)"
  shows "\<exists>faces. detect_faces cv image_path sf mn =
           JObj [(''success'', JBool True),
                 (''detections'', JArr (map detection faces)),
                 (''count'', JInt (int (length faces))),
                 (''image_path'', JStr image_path),
                 (''method'', JStr ''OpenCV Haar Cascades'')]"
  using assms
  by (auto simp: detect_faces_def detect_faces_body_def bind_exn_def lookup_def Let_def
      split: sum.splits option.splits if_splits)

text \<open>
  Claim C10. For every successful run of detect_opencv.py (the printed result has
  \<open>success\<close> true), every detection of the result has class \<open>face\<close> and the
  constant confidence 0.85, and \<open>count\<close> equals the length of the \<open>detections\<close> list.
\<close>

theorem detect_opencv_detections:
  "stdout (detect_opencv_main cv parse_float parse_int argv) = [result] \<Longrightarrow>
   lookup ''success'' result = Some (JBool True) \<Longrightarrow>
   \<exists>ds. lookup ''detections'' result = Some (JArr ds) \<and>
        (\<forall>d \<in> set ds. lookup ''class'' d = Some (JStr ''face'') \<and>
                       lookup ''confidence'' d = Some (JFloat (85 / 100))) \<and>
        lookup ''count'' result = Some (JInt (int (length ds)))"
proof -
  assume out: "stdout (detect_opencv_main cv parse_float parse_int argv) = [result]"
    and ok: "lookup ''success'' result = Some (JBool True)"
  from out ok obtain sf mn where "result = detect_faces cv (argv ! 1) sf mn"
    by (auto simp: detect_opencv_main_def printed_def crashed_def lookup_def
        split: if_splits sum.splits option.splits)
  with ok detect_faces_success [of cv "argv ! 1" sf mn] obtain faces where
    r: "result = JObj [(''success'', JBool True),
                 (''detections'', JArr (map detection faces)),
                 (''count'', JInt (int (length faces))),
                 (''image_path'', JStr (argv ! 1)),
                 (''method'', JStr ''OpenCV Haar Cascades'')]"
    by auto
  show ?thesis
    by (auto simp: r lookup_def detection_def)
qed


theorem detect_opencv_detections_witness:
  "stdout (detect_opencv_main demo_cv demo_float demo_int [''detect_opencv.py'', ''group.jpg'', ''1.2''])
     = [detect_faces demo_cv ''group.jpg'' (12 / 10) 5] \<and>
   lookup ''success'' (detect_faces demo_cv ''group.jpg'' (12 / 10) 5) = Some (JBool True) \<and>
   lookup ''count'' (detect_faces demo_cv ''group.jpg'' (12 / 10) 5) = Some (JInt 2) \<and>
   (\<exists>ds. lookup ''detections'' (detect_faces demo_cv ''group.jpg'' (12 / 10) 5) = Some (JArr ds) \<and>
        length ds = 2 \<and>
        (\<forall>d \<in> set ds. lookup ''class'' d = Some (JStr ''face'') \<and>
                       lookup ''confidence'' d = Some (JFloat (85 / 100))))"
proof -
  have out: "stdout (detect_opencv_main demo_cv demo_float demo_int
                [''detect_opencv.py'', ''group.jpg'', ''1.2''])
     = [detect_faces demo_cv ''group.jpg'' (12 / 10) 5]"
    by (simp add: detect_opencv_main_def demo_float_def printed_def)
  have ok: "lookup ''success'' (detect_faces demo_cv ''group.jpg'' (12 / 10) 5) = Some (JBool True)"
    by (simp add: detect_faces_def detect_faces_body_def demo_cv_def bind_exn_def lookup_def)
  have cnt: "lookup ''count'' (detect_faces demo_cv ''group.jpg'' (12 / 10) 5) = Some (JInt 2)"
    by (simp add: detect_faces_def detect_faces_body_def demo_cv_def bind_exn_def lookup_def)
  from detect_opencv_detections [OF out ok] cnt out ok show ?thesis
    by auto
qed

subsection \<open>Facts about the monads\<close>

lemma bind_tr_simps [simp]:
  "bind_tr (Inl e, cs) f = (Inl e, cs)"
  "bind_tr (Inr x, cs) f = (fst (f x), cs @ snd (f x))"
  by (simp_all add: bind_tr_def split: prod.splits)

lemma bind_exn_simps [simp]:
  "bind_exn (Inl e) f = Inl e"
  "bind_exn (Inr x) f = f x"
  by (simp_all add: bind_exn_def)

lemma internal_error_simps [simp]:
  "internal_error (Inl e, cs) = (jsonify (JObj [(''error'', JStr (exn_str e))]) 500, cs)"
  "internal_error (Inr resp, cs) = (resp, cs)"
  by (simp_all add: internal_error_def)


lemma str_strip_Nil [simp]: "str_strip [] = []"
  by (simp add: str_strip_def)

lemma str_strip_nonempty: "str_strip t \<noteq> [] \<Longrightarrow> t \<noteq> []"
  by auto

lemma succeeded_printed [simp]:
  "succeeded (printed j c) = (\<not> has_error_key j \<and> c = 0)"
  by (simp add: succeeded_def printed_def)


lemma writes_append [simp]: "writes (xs @ ys) = writes xs @ writes ys"
  by (induction xs rule: writes.induct) simp_all

lemma bind_w_eval [simp]:
  "bind_w (eval_w (Inl e)) f s = (Inl e, s)"
  "bind_w (eval_w (Inr x)) f s = f x s"
  by (simp_all add: bind_w_def eval_w_def)

lemma bind_w_update [simp]: "bind_w (update_w u) f s = f () (u s)"
  by (simp add: bind_w_def update_w_def)

lemma update_w_apply [simp]: "update_w u s = (Inr (), u s)"
  by (simp add: update_w_def)

lemma set_task_item_obj [simp]:
  "bind_w (set_task_item (JObj kvs) k v) f s =
     f (JObj (dict_set kvs k v)) (s\<lparr>task_var := Some (JObj (dict_set kvs k v))\<rparr>)"
  by (simp add: set_task_item_def bind_w_def eval_w_def update_w_def)

subsection \<open>Missing fields and the model\<close>







subsection \<open>Status codes of the server\<close>






text \<open>Every answer is 200, 400 or 500, and every answer other than 200 carries an
  \<open>error\<close> key.\<close>

lemma answers_bind: "(\<And>x. answers (fst (f x))) \<Longrightarrow> answers (fst (bind_tr m f))"
  by (cases m; cases "fst m") (auto simp: answers_def)

lemma answers_if:
  "(c \<Longrightarrow> answers (fst a)) \<Longrightarrow> (\<not> c \<Longrightarrow> answers (fst b)) \<Longrightarrow> answers (fst (if c then a else b))"
  by simp

lemma answers_leaf [simp]:
  "answers (fst (no_call (Inr (jsonify j c)))) = (c = 200 \<or> (c = 400 \<and> has_error_key j))"
  by (simp add: answers_def no_call_def jsonify_def)

lemma answers_flask_predict_body: "answers (fst (flask_predict_body m req))"
  unfolding flask_predict_body_def
  by (intro answers_bind answers_if) simp_all

lemma answers_flask_predict_batch_body: "answers (fst (flask_predict_batch_body m req))"
  unfolding flask_predict_batch_body_def
  apply (intro answers_bind answers_if)
   apply simp
  subgoal for data missing texts
    by (cases texts) (simp_all, intro answers_bind, simp)
  done

lemma internal_error_status:
  "answers (fst r) \<Longrightarrow>
   status (fst (internal_error r)) \<in> {200, 400, 500} \<and>
   (status (fst (internal_error r)) \<noteq> 200 \<longrightarrow> has_error_key (body (fst (internal_error r)))) \<and>
   (status (fst (internal_error r)) = 500 \<longleftrightarrow> (\<exists>e. fst r = Inl e))"
  by (cases r; cases "fst r") (auto simp: answers_def jsonify_def)

lemma flask_status_cases:
  "status (fst (flask_predict m req)) \<in> {200, 400, 500} \<and>
   (status (fst (flask_predict m req)) \<noteq> 200 \<longrightarrow> has_error_key (body (fst (flask_predict m req)))) \<and>
   status (fst (flask_predict_batch m req)) \<in> {200, 400, 500} \<and>
   (status (fst (flask_predict_batch m req)) \<noteq> 200 \<longrightarrow>
      has_error_key (body (fst (flask_predict_batch m req))))"
  unfolding flask_predict_def flask_predict_batch_def
  using internal_error_status [OF answers_flask_predict_body [of m req]]
    internal_error_status [OF answers_flask_predict_batch_body [of m req]]
  by blast

subsection \<open>Single and batch prediction\<close>







subsection \<open>The error policy of the scripts\<close>










text \<open>
  hello.py guards only the parse: on a JSON array the \<open>AttributeError\<close> escapes, nothing
  is printed on stdout.
\<close>

lemma hello_crashes_on_array:
  "hello_main demo_loads demo_repr [''hello.py'', ''[1]''] =
     crashed (no_attribute (JArr [JInt 1]) ''get'')"
  by (simp add: hello_main_def demo_loads_def no_attribute_def)



subsection \<open>The worker and the queue store\<close>

text \<open>
  A task that parses to an object with an \<open>id\<close> and a \<open>type\<close> goes through the
  life cycle: the round writes it as \<open>processing\<close> with \<open>started_at\<close>, then either the
  result and the task as \<open>completed\<close> with \<open>completed_at\<close>, or the task as \<open>failed\<close>
  with the message of the error.
\<close>

lemma worker_round_lifecycle:
  assumes "loads payload = Inr (JObj kvs)"
    and "map_of kvs ''id'' = Some tid"
    and "map_of kvs ''type'' = Some ty"
  shows "writes (issued (worker_round loads repr g (Some payload, t1, t2) s)) =
     writes (issued s) @
     (task_key repr tid, 3600,
        JObj (dict_set (dict_set kvs ''status'' (JStr ''processing'')) ''started_at'' (JInt t1))) #
     (case process_task repr g
             (JObj (dict_set (dict_set kvs ''status'' (JStr ''processing''))
                      ''started_at'' (JInt t1))) of
        Inr result \<Rightarrow>
          [(result_key repr tid, 3600, result),
           (task_key repr tid, 3600,
              JObj (dict_set (dict_set (dict_set (dict_set kvs ''status'' (JStr ''processing''))
                      ''started_at'' (JInt t1)) ''status'' (JStr ''completed''))
                      ''completed_at'' (JInt t2)))]
      | Inl e \<Rightarrow>
          [(task_key repr tid, 3600,
              JObj (dict_set (dict_set (dict_set (dict_set kvs ''status'' (JStr ''processing''))
                      ''started_at'' (JInt t1)) ''status'' (JStr ''failed''))
                      ''error'' (JStr (exn_str e))))])"
  using assms
  by (cases "process_task repr g
             (JObj (dict_set (dict_set kvs ''status'' (JStr ''processing''))
                      ''started_at'' (JInt t1)))")
     (simp_all add: worker_round_def worker_try_def worker_except_def setex_def)

text \<open>
  In every run the worker only pops and writes, and every write follows the store
  convention.
\<close>

lemma keeps_eval [simp]: "keeps (eval_w r)"
  by (simp add: keeps_def eval_w_def)

lemma keeps_bind: "keeps m \<Longrightarrow> (\<And>x. keeps (f x)) \<Longrightarrow> keeps (bind_w m f)"
  unfolding keeps_def bind_w_def
  by (auto split: prod.splits sum.splits)

lemma keeps_task_var [simp]: "keeps (update_w (\<lambda>s. s\<lparr>task_var := t\<rparr>))"
  by (simp add: keeps_def)

lemma keeps_task_id_var [simp]: "keeps (update_w (\<lambda>s. s\<lparr>task_id_var := t\<rparr>))"
  by (simp add: keeps_def)

lemma keeps_set_task_item [simp]: "keeps (set_task_item task k v)"
  unfolding set_task_item_def
  by (intro keeps_bind) simp_all

lemma keeps_setex_task [simp]: "keeps (setex (task_key repr tid) 3600 v)"
  by (simp add: keeps_def setex_def follows_convention_def task_key_def)

lemma keeps_setex_result [simp]: "keeps (setex (result_key repr tid) 3600 v)"
  by (simp add: keeps_def setex_def follows_convention_def result_key_def)

lemma keeps_worker_try: "keeps (worker_try loads repr g payload t1 t2)"
  unfolding worker_try_def
  by (intro keeps_bind) simp_all

lemma worker_except_convention:
  assumes "list_all follows_convention (issued s)"
  shows "list_all follows_convention (issued (worker_except repr e s))"
proof (cases "task_id_var s")
  case None
  with assms show ?thesis by (simp add: worker_except_def)
next
  case (Some tid)
  show ?thesis
  proof (cases "task_var s")
    case None
    with Some assms show ?thesis by (simp add: worker_except_def)
  next
    case (Some task)
    have "keeps (bind_w (set_task_item task ''status'' (JStr ''failed'')) (\<lambda>task1.
                 bind_w (set_task_item task1 ''error'' (JStr (exn_str e))) (\<lambda>task2.
                 setex (task_key repr tid) 3600 task2)))"
      by (intro keeps_bind) simp_all
    with assms Some \<open>task_id_var s = Some tid\<close> show ?thesis
      by (auto simp: worker_except_def keeps_def split: prod.splits sum.splits)
  qed
qed

lemma worker_round_convention:
  assumes "list_all follows_convention (issued s)"
  shows "list_all follows_convention (issued (worker_round loads repr g ev s))"
proof -
  obtain popped t1 t2 where ev: "ev = (popped, t1, t2)"
    by (cases ev) auto
  let ?s0 = "s\<lparr>issued := issued s @ [BRPOP ''ml_tasks'' 1]\<rparr>"
  from assms have s0: "list_all follows_convention (issued ?s0)"
    by (simp add: follows_convention_def)
  show ?thesis
  proof (cases popped)
    case None
    with ev s0 show ?thesis by (simp add: worker_round_def)
  next
    case (Some payload)
    from keeps_worker_try [of loads repr g payload t1 t2] s0
    have "list_all follows_convention (issued (snd (worker_try loads repr g payload t1 t2 ?s0)))"
      unfolding keeps_def by blast
    with ev Some show ?thesis
      by (cases "worker_try loads repr g payload t1 t2 ?s0")
         (auto simp: worker_round_def Let_def worker_except_convention split: sum.splits)
  qed
qed

lemma worker_loop_convention:
  "list_all follows_convention (issued s) \<Longrightarrow>
     list_all follows_convention (issued (worker_loop loads repr g evs s))"
  by (induction evs arbitrary: s)
     (auto simp: Let_def worker_round_convention split: option.splits)

text \<open>
  Claim C3 holds of the specification and fails on the code. After task \<open>a1\<close> has
  completed, the worker pops a payload that is not JSON. \<open>task_id\<close> is still bound from
  the round before, so the handler marks the task it still holds as failed: the record
  of \<open>a1\<close> goes from \<open>completed\<close> to \<open>failed\<close>.
\<close>

theorem worker_marks_completed_task_failed:
  "writes (issued (worker_loop demo_loads demo_repr (NotLoaded :: unit sentiment_globals)
     [(Some ''{\"id\": \"a1\", \"type\": \"image_classification\", \"data\": {}}'', 100, 101),
      (Some ''not json'', 200, 201)]
     initial_worker)) =
   [(''task:a1'', 3600,
       JObj [(''id'', JStr ''a1''), (''type'', JStr ''image_classification''),
             (''data'', JObj []), (''status'', JStr ''processing''),
             (''started_at'', JInt 100)]),
    (''result:a1'', 3600,
       JObj [(''label'', JStr ''cat''), (''confidence'', JFloat (92 / 100))]),
    (''task:a1'', 3600,
       JObj [(''id'', JStr ''a1''), (''type'', JStr ''image_classification''),
             (''data'', JObj []), (''status'', JStr ''completed''),
             (''started_at'', JInt 100), (''completed_at'', JInt 101)]),
    (''task:a1'', 3600,
       JObj [(''id'', JStr ''a1''), (''type'', JStr ''image_classification''),
             (''data'', JObj []), (''status'', JStr ''failed''),
             (''started_at'', JInt 100), (''completed_at'', JInt 101),
             (''error'', JStr ''Expecting value: line 1 column 1 (char 0)'')])]"
  by code_simp

text \<open>
  Claim C6 holds of the specification and fails on the code, by the same stale
  \<open>task_id\<close>. After task \<open>a1\<close>, the worker pops a task without an \<open>id\<close>; its record is
  written, as failed, under \<open>task:a1\<close>, the key of the task before it.
\<close>

theorem worker_files_task_under_previous_id:
  "demo_loads ''{\"type\": \"image_classification\", \"data\": {}}'' =
     Inr (JObj [(''type'', JStr ''image_classification''), (''data'', JObj [])]) \<and>
   writes (issued (worker_loop demo_loads demo_repr (NotLoaded :: unit sentiment_globals)
     [(Some ''{\"id\": \"a1\", \"type\": \"image_classification\", \"data\": {}}'', 100, 101),
      (Some ''{\"type\": \"image_classification\", \"data\": {}}'', 200, 201)]
     initial_worker)) =
   [(''task:a1'', 3600,
       JObj [(''id'', JStr ''a1''), (''type'', JStr ''image_classification''),
             (''data'', JObj []), (''status'', JStr ''processing''),
             (''started_at'', JInt 100)]),
    (''result:a1'', 3600,
       JObj [(''label'', JStr ''cat''), (''confidence'', JFloat (92 / 100))]),
    (''task:a1'', 3600,
       JObj [(''id'', JStr ''a1''), (''type'', JStr ''image_classification''),
             (''data'', JObj []), (''status'', JStr ''completed''),
             (''started_at'', JInt 100), (''completed_at'', JInt 101)]),
    (''task:a1'', 3600,
       JObj [(''type'', JStr ''image_classification''), (''data'', JObj []),
             (''status'', JStr ''failed''), (''error'', JStr (quote ''id''))])]"
  by code_simp

text \<open>
  With no task before it, a payload without an \<open>id\<close> leaves no trace in the store.
\<close>

lemma worker_first_round_without_id:
  "writes (issued (worker_loop demo_loads demo_repr (NotLoaded :: unit sentiment_globals)
     [(Some ''not json'', 100, 101),
      (Some ''{\"type\": \"image_classification\", \"data\": {}}'', 200, 201)]
     initial_worker)) = []"
  by code_simp

end
